theory Spec2Isabelle
  imports Complex_Main
begin

section \<open>JavaScript values\<close>

text \<open>
  The builder stores values of TypeScript type \<open>any\<close> in its arrays and forwards them
  untouched. A value is one of the JSON-like shapes below. A JavaScript \<open>number\<close> is
  modelled by a real: the builder only stores numbers, and the one comparison it makes
  (in \<open>hashes\<close>) is against the constants 1 and 22. \<open>NaN\<close> and the infinities are not
  numbers of the model.
\<close>

datatype jsval =
    JUndefined
  | JNull
  | JBool bool
  | JNum real
  | JStr string
  | JArr "jsval list"
  | JObj "(string \<times> jsval) list"

type_synonym number = real

text \<open>An optional parameter or field: \<open>None\<close> is JavaScript's \<open>undefined\<close>.\<close>

fun num_val :: "number option \<Rightarrow> jsval" where
  "num_val None = JUndefined"
| "num_val (Some n) = JNum n"

text \<open>
  The relational operator \<open><\<close> on an optional number: \<open>undefined\<close> converts to
  \<open>NaN\<close>, and every comparison with \<open>NaN\<close> is false.
\<close>

fun js_lt :: "number option \<Rightarrow> number option \<Rightarrow> bool" where
  "js_lt (Some a) (Some b) = (a < b)"
| "js_lt _ _ = False"

text \<open>\<open>Array.prototype.join\<close> on an array of strings.\<close>

fun join :: "string list \<Rightarrow> string \<Rightarrow> string" where
  "join [] sep = []"
| "join [x] sep = x"
| "join (x # y # ys) sep = x @ sep @ join (y # ys) sep"

section \<open>The query builder (src/tile38\_query.ts)\<close>

text \<open>\<open>addToArray\<close>: \<open>arr1 ? arr1.concat(arr2) : arr2\<close>. An array is always truthy;
  \<open>None\<close> is the missing (\<open>undefined\<close>) first argument.\<close>

fun addToArray :: "jsval list option \<Rightarrow> jsval list \<Rightarrow> jsval list" where
  "addToArray (Some arr1) arr2 = arr1 @ arr2"
| "addToArray None arr2 = arr2"

datatype OrderType = Ascending | Descending

fun OrderType_str :: "OrderType \<Rightarrow> string" where
  "OrderType_str Ascending = ''ASC''"
| "OrderType_str Descending = ''DESC''"

datatype OutputType = Count | Ids | Objects | Points | Bounds | Hashes

fun OutputType_str :: "OutputType \<Rightarrow> string" where
  "OutputType_str Count = ''count''"
| "OutputType_str Ids = ''ids''"
| "OutputType_str Objects = ''objects''"
| "OutputType_str Points = ''points''"
| "OutputType_str Bounds = ''bounds''"
| "OutputType_str Hashes = ''hashes''"

text \<open>
  Class \<open>Tile38QueryOpts\<close>. Its fields share their names with the builder's methods, so
  each field \<open>f\<close> is \<open>o_f\<close> here. A field declared without initialiser, or with \<open>?\<close>,
  is \<open>undefined\<close> (\<open>None\<close>) until a method sets it.
\<close>

record Tile38QueryOpts =
  o_matches :: "jsval list"
  o_order :: OrderType
  o_distance :: "string option"
  o_where :: "jsval list"
  o_whereIn :: "jsval list"
  o_whereEval :: "jsval list"
  o_whereEvalSha :: "jsval list"
  o_clip :: "string option"
  o_nofields :: "string option"
  o_detect :: "(string \<times> string) option"
  o_commands :: "string list option"
  o_output :: "jsval list option"
  o_getObject :: "jsval list option"
  o_bounds :: "jsval list option"
  o_geojson :: "string list option"
  o_tile :: "jsval list option"
  o_quadKey :: "jsval list option"
  o_hash :: "jsval list option"
  o_circle :: "jsval list option"
  o_point :: "jsval list option"
  o_roam :: "jsval list option"
  o_fence :: "string option"
  o_cursor :: "(string \<times> number) option"
  o_limit :: "(string \<times> number) option"
  o_sparse :: "(string \<times> number) option"

text \<open>\<open>new Tile38QueryOpts()\<close>: the field initialisers of the class.\<close>

definition new_Tile38QueryOpts :: Tile38QueryOpts where
  "new_Tile38QueryOpts =
     \<lparr> o_matches = [], o_order = Ascending, o_distance = None, o_where = [],
       o_whereIn = [], o_whereEval = [], o_whereEvalSha = [], o_clip = None,
       o_nofields = None, o_detect = None, o_commands = None, o_output = None,
       o_getObject = None, o_bounds = None, o_geojson = None, o_tile = None,
       o_quadKey = None, o_hash = None, o_circle = None, o_point = None,
       o_roam = None, o_fence = None, o_cursor = None, o_limit = None,
       o_sparse = None \<rparr>"

text \<open>
  Class \<open>Tile38Query\<close>. The \<open>client\<close> field is the connection to the server; what the
  builder asks of it is returned as a request by \<open>execute\<close> and \<open>executeFence\<close>.
\<close>

record Tile38Query =
  qtype :: string
  key :: string
  options :: Tile38QueryOpts

definition new_Tile38Query :: "string \<Rightarrow> string \<Rightarrow> Tile38Query" where
  "new_Tile38Query t k = \<lparr> qtype = t, key = k, options = new_Tile38QueryOpts \<rparr>"

datatype error = Error string

subsection \<open>Builder methods\<close>

text \<open>Every method mutates \<open>this.options\<close> and returns \<open>this\<close>: the model returns the
  updated builder.\<close>

definition cursor :: "number \<Rightarrow> Tile38Query \<Rightarrow> Tile38Query" where
  "cursor start this = this\<lparr>options := (options this)\<lparr>o_cursor := Some (''CURSOR'', start)\<rparr>\<rparr>"

definition limit :: "number \<Rightarrow> Tile38Query \<Rightarrow> Tile38Query" where
  "limit cnt this = this\<lparr>options := (options this)\<lparr>o_limit := Some (''LIMIT'', cnt)\<rparr>\<rparr>"

definition sparse :: "number \<Rightarrow> Tile38Query \<Rightarrow> Tile38Query" where
  "sparse spread this = this\<lparr>options := (options this)\<lparr>o_sparse := Some (''SPARSE'', spread)\<rparr>\<rparr>"

definition match :: "string \<Rightarrow> Tile38Query \<Rightarrow> Tile38Query" where
  "match val this =
     (let m = [JStr ''MATCH'', JStr val]
      in this\<lparr>options := (options this)
           \<lparr>o_matches := addToArray (Some (o_matches (options this))) m\<rparr>\<rparr>)"

definition order :: "OrderType \<Rightarrow> Tile38Query \<Rightarrow> Tile38Query" where
  "order val this = this\<lparr>options := (options this)\<lparr>o_order := val\<rparr>\<rparr>"

definition asc :: "Tile38Query \<Rightarrow> Tile38Query" where
  "asc this = order Ascending this"

definition desc :: "Tile38Query \<Rightarrow> Tile38Query" where
  "desc this = order Descending this"

definition distance :: "Tile38Query \<Rightarrow> Tile38Query" where
  "distance this = this\<lparr>options := (options this)\<lparr>o_distance := Some ''DISTANCE''\<rparr>\<rparr>"

definition where' :: "string \<Rightarrow> jsval list \<Rightarrow> Tile38Query \<Rightarrow> Tile38Query" where
  "where' field criteria this =
     (let arr = [JStr ''WHERE'', JStr field] @ criteria
      in this\<lparr>options := (options this)
           \<lparr>o_where := addToArray (Some (o_where (options this))) arr\<rparr>\<rparr>)"

definition whereIn :: "string \<Rightarrow> jsval list \<Rightarrow> Tile38Query \<Rightarrow> Tile38Query" where
  "whereIn field vals this =
     (let arr = [JStr ''WHEREIN'', JStr field, JNum (real (length vals))] @ vals
      in this\<lparr>options := (options this)
           \<lparr>o_whereIn := addToArray (Some (o_whereIn (options this))) arr\<rparr>\<rparr>)"

definition whereEval :: "string \<Rightarrow> jsval list \<Rightarrow> Tile38Query \<Rightarrow> Tile38Query" where
  "whereEval script args this =
     (let arr = [JStr ''WHEREEVAL'', JStr ([CHR 0x22] @ script @ [CHR 0x22]),
                 JNum (real (length args))] @ args
      in this\<lparr>options := (options this)
           \<lparr>o_whereEval := addToArray (Some (o_whereEval (options this))) arr\<rparr>\<rparr>)"

definition whereEvalSha :: "string \<Rightarrow> jsval list \<Rightarrow> Tile38Query \<Rightarrow> Tile38Query" where
  "whereEvalSha sha args this =
     (let arr = [JStr ''WHEREEVALSHA'', JStr sha, JNum (real (length args))] @ args
      in this\<lparr>options := (options this)
           \<lparr>o_whereEvalSha := addToArray (Some (o_whereEvalSha (options this))) arr\<rparr>\<rparr>)"

definition clip :: "Tile38Query \<Rightarrow> Tile38Query" where
  "clip this = this\<lparr>options := (options this)\<lparr>o_clip := Some ''CLIP''\<rparr>\<rparr>"

definition nofields :: "Tile38Query \<Rightarrow> Tile38Query" where
  "nofields this = this\<lparr>options := (options this)\<lparr>o_nofields := Some ''NOFIELDS''\<rparr>\<rparr>"

text \<open>\<open>detect\<close> and \<open>commands\<close> take the values as strings: the source's comments
  allow one comma-separated string as well as separate values.\<close>

definition detect :: "string list \<Rightarrow> Tile38Query \<Rightarrow> Tile38Query" where
  "detect vals this =
     this\<lparr>options := (options this)\<lparr>o_detect := Some (''DETECT'', join vals '','')\<rparr>\<rparr>"

definition commands :: "string list \<Rightarrow> Tile38Query \<Rightarrow> Tile38Query" where
  "commands vals this =
     this\<lparr>options := (options this)\<lparr>o_commands := Some [''COMMANDS'', join vals '','']\<rparr>\<rparr>"

definition output' :: "OutputType \<Rightarrow> number option \<Rightarrow> Tile38Query \<Rightarrow> Tile38Query" where
  "output' type precision this =
     (if type = Hashes
      then this\<lparr>options := (options this)
             \<lparr>o_output := Some [JStr (OutputType_str type), num_val precision]\<rparr>\<rparr>
      else this\<lparr>options := (options this)
             \<lparr>o_output := Some [JStr (OutputType_str type)]\<rparr>\<rparr>)"

definition ids :: "Tile38Query \<Rightarrow> Tile38Query" where
  "ids this = output' Ids None this"

definition count :: "Tile38Query \<Rightarrow> Tile38Query" where
  "count this = output' Count None this"

definition objects :: "Tile38Query \<Rightarrow> Tile38Query" where
  "objects this = output' Objects None this"

definition points :: "Tile38Query \<Rightarrow> Tile38Query" where
  "points this = output' Points None this"

text \<open>
  \<open>hashes\<close>: the guard is
  \<open>precision != undefined || (precision < 1 || precision > 22)\<close>, and the method throws
  when it holds.
\<close>

definition hashes :: "number option \<Rightarrow> Tile38Query \<Rightarrow> error + Tile38Query" where
  "hashes precision this =
     (if precision \<noteq> None \<or> (js_lt precision (Some 1) \<or> js_lt (Some 22) precision)
      then Inl (Error ''for the hashes output type, precision must be a integer between 1 and 22 inclusive.'')
      else Inr (output' Hashes precision this))"

definition getObject :: "string \<Rightarrow> string \<Rightarrow> Tile38Query \<Rightarrow> Tile38Query" where
  "getObject k ident this =
     this\<lparr>options := (options this)\<lparr>o_getObject := Some [JStr ''GET'', JStr k, JStr ident]\<rparr>\<rparr>"

definition bounds :: "number \<Rightarrow> number \<Rightarrow> number \<Rightarrow> number \<Rightarrow> Tile38Query \<Rightarrow> Tile38Query" where
  "bounds minlat minlon maxlat maxlon this =
     this\<lparr>options := (options this)
       \<lparr>o_bounds := Some [JStr ''BOUNDS'', JNum minlat, JNum minlon, JNum maxlat, JNum maxlon]\<rparr>\<rparr>"

text \<open>\<open>object\<close>: \<open>JSON.stringify\<close> is the platform's; it is the parameter
  \<open>stringify\<close>.\<close>

definition object :: "('g \<Rightarrow> string) \<Rightarrow> 'g \<Rightarrow> Tile38Query \<Rightarrow> Tile38Query" where
  "object stringify geojson this =
     this\<lparr>options := (options this)\<lparr>o_geojson := Some [''OBJECT'', stringify geojson]\<rparr>\<rparr>"

definition tile :: "number \<Rightarrow> number \<Rightarrow> number \<Rightarrow> Tile38Query \<Rightarrow> Tile38Query" where
  "tile x y z this =
     this\<lparr>options := (options this)\<lparr>o_tile := Some [JStr ''TILE'', JNum x, JNum y, JNum z]\<rparr>\<rparr>"

definition quadKey :: "string \<Rightarrow> Tile38Query \<Rightarrow> Tile38Query" where
  "quadKey k this =
     this\<lparr>options := (options this)\<lparr>o_quadKey := Some [JStr ''QUADKEY'', JStr k]\<rparr>\<rparr>"

definition hash :: "string \<Rightarrow> Tile38Query \<Rightarrow> Tile38Query" where
  "hash geohash this =
     this\<lparr>options := (options this)\<lparr>o_hash := Some [JStr ''HASH'', JStr geohash]\<rparr>\<rparr>"

definition circle :: "number \<Rightarrow> number \<Rightarrow> number \<Rightarrow> Tile38Query \<Rightarrow> Tile38Query" where
  "circle lat lon meters this =
     this\<lparr>options := (options this)
       \<lparr>o_circle := Some [JStr ''CIRCLE'', JNum lat, JNum lon, JNum meters]\<rparr>\<rparr>"

text \<open>\<open>point\<close>: the array is assigned, then \<open>meters\<close> is pushed onto it unless it is
  \<open>undefined\<close>.\<close>

definition point :: "number \<Rightarrow> number \<Rightarrow> number option \<Rightarrow> Tile38Query \<Rightarrow> Tile38Query" where
  "point lat lon meters this =
     (let this1 = this\<lparr>options := (options this)
                    \<lparr>o_point := Some [JStr ''POINT'', JNum lat, JNum lon]\<rparr>\<rparr>
      in case meters of
           Some m \<Rightarrow> this1\<lparr>options := (options this1)
                       \<lparr>o_point := map_option (\<lambda>p. p @ [JNum m]) (o_point (options this1))\<rparr>\<rparr>
         | None \<Rightarrow> this1)"

definition roam :: "string \<Rightarrow> string \<Rightarrow> number \<Rightarrow> Tile38Query \<Rightarrow> Tile38Query" where
  "roam k pattern meters this =
     this\<lparr>options := (options this)
       \<lparr>o_roam := Some [JStr ''ROAM'', JStr k, JStr pattern, JNum meters]\<rparr>\<rparr>"

subsection \<open>Serialization\<close>

text \<open>\<open>o[c]\<close>: the property of the options object named \<open>c\<close>, as a JavaScript value;
  a name the object does not have reads as \<open>undefined\<close>.\<close>

fun str_val :: "string option \<Rightarrow> jsval" where
  "str_val None = JUndefined"
| "str_val (Some s) = JStr s"

fun arr_val :: "jsval list option \<Rightarrow> jsval" where
  "arr_val None = JUndefined"
| "arr_val (Some xs) = JArr xs"

fun strs_val :: "string list option \<Rightarrow> jsval" where
  "strs_val None = JUndefined"
| "strs_val (Some xs) = JArr (map JStr xs)"

fun pair_val :: "(string \<times> number) option \<Rightarrow> jsval" where
  "pair_val None = JUndefined"
| "pair_val (Some (k, n)) = JArr [JStr k, JNum n]"

fun strpair_val :: "(string \<times> string) option \<Rightarrow> jsval" where
  "strpair_val None = JUndefined"
| "strpair_val (Some (k, v)) = JArr [JStr k, JStr v]"

definition opt_get :: "Tile38QueryOpts \<Rightarrow> string \<Rightarrow> jsval" where
  "opt_get o' c =
    (if c = ''cursor'' then pair_val (o_cursor o')
     else if c = ''limit'' then pair_val (o_limit o')
     else if c = ''sparse'' then pair_val (o_sparse o')
     else if c = ''matches'' then JArr (o_matches o')
     else if c = ''order'' then JStr (OrderType_str (o_order o'))
     else if c = ''distance'' then str_val (o_distance o')
     else if c = ''where'' then JArr (o_where o')
     else if c = ''whereIn'' then JArr (o_whereIn o')
     else if c = ''whereEval'' then JArr (o_whereEval o')
     else if c = ''whereEvalSha'' then JArr (o_whereEvalSha o')
     else if c = ''clip'' then str_val (o_clip o')
     else if c = ''nofields'' then str_val (o_nofields o')
     else if c = ''fence'' then str_val (o_fence o')
     else if c = ''detect'' then strpair_val (o_detect o')
     else if c = ''commands'' then strs_val (o_commands o')
     else if c = ''output'' then arr_val (o_output o')
     else if c = ''getObject'' then arr_val (o_getObject o')
     else if c = ''bounds'' then arr_val (o_bounds o')
     else if c = ''geojson'' then strs_val (o_geojson o')
     else if c = ''tile'' then arr_val (o_tile o')
     else if c = ''quadKey'' then arr_val (o_quadKey o')
     else if c = ''hash'' then arr_val (o_hash o')
     else if c = ''point'' then arr_val (o_point o')
     else if c = ''circle'' then arr_val (o_circle o')
     else if c = ''roam'' then arr_val (o_roam o')
     else JUndefined)"

text \<open>The local array \<open>commands\<close> of \<open>commandArr\<close>: the order of serialization.\<close>

definition command_names :: "string list" where
  "command_names =
     [''cursor'', ''limit'', ''sparse'', ''matches'', ''order'', ''distance'', ''where'',
      ''whereIn'', ''whereEval'', ''whereEvalSha'', ''clip'', ''nofields'', ''fence'',
      ''detect'', ''commands'', ''output'', ''getObject'', ''bounds'', ''geojson'', ''tile'',
      ''quadKey'', ''hash'', ''point'', ''circle'', ''roam'']"

text \<open>One turn of the loop \<open>for (let c of commands)\<close>: what it pushes onto \<open>cmd\<close>.\<close>

definition push_opt :: "Tile38QueryOpts \<Rightarrow> jsval list \<Rightarrow> string \<Rightarrow> jsval list" where
  "push_opt o' cmd c =
     (let opt = opt_get o' c
      in if opt \<noteq> JUndefined
         then (case opt of JArr xs \<Rightarrow> cmd @ xs | _ \<Rightarrow> cmd @ [opt])
         else cmd)"

text \<open>\<open>commandArr\<close> returns the array it built, and the builder as it leaves it.\<close>

definition commandArr :: "Tile38Query \<Rightarrow> jsval list \<times> Tile38Query" where
  "commandArr this =
     (let cmd = [JStr (key this)]; o' = options this
      in (foldl (push_opt o') cmd command_names, this))"

text \<open>What the builder asks of its client.\<close>

datatype 'cb request =
    SendCommand string nat "jsval list"
  | OpenLiveFence string "jsval list" 'cb

definition execute :: "Tile38Query \<Rightarrow> 'cb request \<times> Tile38Query" where
  "execute this =
     (let (arr, this1) = commandArr this
      in (SendCommand (qtype this1) 1 arr, this1))"

definition executeFence :: "'cb \<Rightarrow> Tile38Query \<Rightarrow> 'cb request \<times> Tile38Query" where
  "executeFence callback this =
     (let this1 = this\<lparr>options := (options this)\<lparr>o_fence := Some ''FENCE''\<rparr>\<rparr>;
          (arr, this2) = commandArr this1
      in (OpenLiveFence (qtype this2) arr callback, this2))"


subsection \<open>Sequences of builder calls\<close>

text \<open>
  One constructor for each method of the builder that writes to \<open>this.options\<close>, with
  the method's arguments. \<open>M_executeFence\<close> carries the callback handed on to the
  client.
\<close>

datatype ('g, 'cb) call =
    M_cursor number
  | M_limit number
  | M_sparse number
  | M_match string
  | M_order OrderType
  | M_asc
  | M_desc
  | M_distance
  | M_where string "jsval list"
  | M_whereIn string "jsval list"
  | M_whereEval string "jsval list"
  | M_whereEvalSha string "jsval list"
  | M_clip
  | M_nofields
  | M_detect "string list"
  | M_commands "string list"
  | M_output OutputType "number option"
  | M_ids
  | M_count
  | M_objects
  | M_points
  | M_hashes "number option"
  | M_getObject string string
  | M_bounds number number number number
  | M_object 'g
  | M_tile number number number
  | M_quadKey string
  | M_hash string
  | M_circle number number number
  | M_point number number "number option"
  | M_roam string string number
  | M_executeFence 'cb

fun apply_call :: "('g \<Rightarrow> string) \<Rightarrow> ('g, 'cb) call \<Rightarrow> Tile38Query \<Rightarrow> error + Tile38Query" where
  "apply_call S (M_cursor n) q = Inr (cursor n q)"
| "apply_call S (M_limit n) q = Inr (limit n q)"
| "apply_call S (M_sparse n) q = Inr (sparse n q)"
| "apply_call S (M_match v) q = Inr (match v q)"
| "apply_call S (M_order v) q = Inr (order v q)"
| "apply_call S M_asc q = Inr (asc q)"
| "apply_call S M_desc q = Inr (desc q)"
| "apply_call S M_distance q = Inr (distance q)"
| "apply_call S (M_where f vs) q = Inr (where' f vs q)"
| "apply_call S (M_whereIn f vs) q = Inr (whereIn f vs q)"
| "apply_call S (M_whereEval f vs) q = Inr (whereEval f vs q)"
| "apply_call S (M_whereEvalSha f vs) q = Inr (whereEvalSha f vs q)"
| "apply_call S M_clip q = Inr (clip q)"
| "apply_call S M_nofields q = Inr (nofields q)"
| "apply_call S (M_detect vs) q = Inr (detect vs q)"
| "apply_call S (M_commands vs) q = Inr (commands vs q)"
| "apply_call S (M_output t p) q = Inr (output' t p q)"
| "apply_call S M_ids q = Inr (ids q)"
| "apply_call S M_count q = Inr (count q)"
| "apply_call S M_objects q = Inr (objects q)"
| "apply_call S M_points q = Inr (points q)"
| "apply_call S (M_hashes p) q = hashes p q"
| "apply_call S (M_getObject k i) q = Inr (getObject k i q)"
| "apply_call S (M_bounds a b c d) q = Inr (bounds a b c d q)"
| "apply_call S (M_object g) q = Inr (object S g q)"
| "apply_call S (M_tile x y z) q = Inr (tile x y z q)"
| "apply_call S (M_quadKey k) q = Inr (quadKey k q)"
| "apply_call S (M_hash h) q = Inr (hash h q)"
| "apply_call S (M_circle a b m) q = Inr (circle a b m q)"
| "apply_call S (M_point a b m) q = Inr (point a b m q)"
| "apply_call S (M_roam k p m) q = Inr (roam k p m q)"
| "apply_call S (M_executeFence cb) q = Inr (snd (executeFence cb q))"

text \<open>A chain of calls; an exception ends it.\<close>

fun run_calls :: "('g \<Rightarrow> string) \<Rightarrow> ('g, 'cb) call list \<Rightarrow> Tile38Query \<Rightarrow> error + Tile38Query" where
  "run_calls S [] q = Inr q"
| "run_calls S (c # cs) q =
     (case apply_call S c q of Inl e \<Rightarrow> Inl e | Inr q' \<Rightarrow> run_calls S cs q')"


subsection \<open>The clause groups, as the specification words them\<close>

text \<open>
  The specification describes serialization by clause kinds: a fixed order of kinds,
  repeatable kinds that accumulate their fragments in call order, and singular kinds
  that keep the fragment of the last call. The definitions of this subsection follow
  those words; \<open>spec_serialize\<close> is compared with \<open>commandArr\<close> below.
\<close>

datatype kind =
    K_cursor | K_limit | K_sparse | K_match | K_order | K_distance | K_where
  | K_whereIn | K_whereEval | K_whereEvalSha | K_clip | K_nofields | K_fence
  | K_detect | K_commands | K_output | K_getObject | K_bounds | K_object | K_tile
  | K_quadKey | K_hash | K_point | K_circle | K_roam

definition fixed_order :: "kind list" where
  "fixed_order =
     [K_cursor, K_limit, K_sparse, K_match, K_order, K_distance, K_where, K_whereIn,
      K_whereEval, K_whereEvalSha, K_clip, K_nofields, K_fence, K_detect, K_commands,
      K_output, K_getObject, K_bounds, K_object, K_tile, K_quadKey, K_hash, K_point,
      K_circle, K_roam]"

fun repeatable :: "kind \<Rightarrow> bool" where
  "repeatable K_match = True"
| "repeatable K_where = True"
| "repeatable K_whereIn = True"
| "repeatable K_whereEval = True"
| "repeatable K_whereEvalSha = True"
| "repeatable _ = False"

text \<open>The property of the options object that holds a kind's clause.\<close>

fun name_of :: "kind \<Rightarrow> string" where
  "name_of K_cursor = ''cursor''"
| "name_of K_limit = ''limit''"
| "name_of K_sparse = ''sparse''"
| "name_of K_match = ''matches''"
| "name_of K_order = ''order''"
| "name_of K_distance = ''distance''"
| "name_of K_where = ''where''"
| "name_of K_whereIn = ''whereIn''"
| "name_of K_whereEval = ''whereEval''"
| "name_of K_whereEvalSha = ''whereEvalSha''"
| "name_of K_clip = ''clip''"
| "name_of K_nofields = ''nofields''"
| "name_of K_fence = ''fence''"
| "name_of K_detect = ''detect''"
| "name_of K_commands = ''commands''"
| "name_of K_output = ''output''"
| "name_of K_getObject = ''getObject''"
| "name_of K_bounds = ''bounds''"
| "name_of K_object = ''geojson''"
| "name_of K_tile = ''tile''"
| "name_of K_quadKey = ''quadKey''"
| "name_of K_hash = ''hash''"
| "name_of K_point = ''point''"
| "name_of K_circle = ''circle''"
| "name_of K_roam = ''roam''"

text \<open>The clause kind a call belongs to.\<close>

fun kind_of :: "('g, 'cb) call \<Rightarrow> kind" where
  "kind_of (M_cursor n) = K_cursor"
| "kind_of (M_limit n) = K_limit"
| "kind_of (M_sparse n) = K_sparse"
| "kind_of (M_match v) = K_match"
| "kind_of (M_order v) = K_order"
| "kind_of M_asc = K_order"
| "kind_of M_desc = K_order"
| "kind_of M_distance = K_distance"
| "kind_of (M_where f vs) = K_where"
| "kind_of (M_whereIn f vs) = K_whereIn"
| "kind_of (M_whereEval f vs) = K_whereEval"
| "kind_of (M_whereEvalSha f vs) = K_whereEvalSha"
| "kind_of M_clip = K_clip"
| "kind_of M_nofields = K_nofields"
| "kind_of (M_detect vs) = K_detect"
| "kind_of (M_commands vs) = K_commands"
| "kind_of (M_output t p) = K_output"
| "kind_of M_ids = K_output"
| "kind_of M_count = K_output"
| "kind_of M_objects = K_output"
| "kind_of M_points = K_output"
| "kind_of (M_hashes p) = K_output"
| "kind_of (M_getObject k i) = K_getObject"
| "kind_of (M_bounds a b c d) = K_bounds"
| "kind_of (M_object g) = K_object"
| "kind_of (M_tile x y z) = K_tile"
| "kind_of (M_quadKey k) = K_quadKey"
| "kind_of (M_hash h) = K_hash"
| "kind_of (M_circle a b m) = K_circle"
| "kind_of (M_point a b m) = K_point"
| "kind_of (M_roam k p m) = K_roam"
| "kind_of (M_executeFence cb) = K_fence"

text \<open>The fragment one call stands for: the keyword and the positional arguments,
  as section 4.1 of the specification gives them for each operation.\<close>

fun fragment :: "('g \<Rightarrow> string) \<Rightarrow> ('g, 'cb) call \<Rightarrow> jsval list" where
  "fragment S (M_cursor n) = [JStr ''CURSOR'', JNum n]"
| "fragment S (M_limit n) = [JStr ''LIMIT'', JNum n]"
| "fragment S (M_sparse n) = [JStr ''SPARSE'', JNum n]"
| "fragment S (M_match v) = [JStr ''MATCH'', JStr v]"
| "fragment S (M_order v) = [JStr (OrderType_str v)]"
| "fragment S M_asc = [JStr ''ASC'']"
| "fragment S M_desc = [JStr ''DESC'']"
| "fragment S M_distance = [JStr ''DISTANCE'']"
| "fragment S (M_where f vs) = JStr ''WHERE'' # JStr f # vs"
| "fragment S (M_whereIn f vs) = JStr ''WHEREIN'' # JStr f # JNum (real (length vs)) # vs"
| "fragment S (M_whereEval f vs) =
     JStr ''WHEREEVAL'' # JStr (CHR 0x22 # f @ [CHR 0x22]) # JNum (real (length vs)) # vs"
| "fragment S (M_whereEvalSha f vs) =
     JStr ''WHEREEVALSHA'' # JStr f # JNum (real (length vs)) # vs"
| "fragment S M_clip = [JStr ''CLIP'']"
| "fragment S M_nofields = [JStr ''NOFIELDS'']"
| "fragment S (M_detect vs) = [JStr ''DETECT'', JStr (join vs '','')]"
| "fragment S (M_commands vs) = [JStr ''COMMANDS'', JStr (join vs '','')]"
| "fragment S (M_output t p) =
     (if t = Hashes then [JStr ''hashes'', num_val p] else [JStr (OutputType_str t)])"
| "fragment S M_ids = [JStr ''ids'']"
| "fragment S M_count = [JStr ''count'']"
| "fragment S M_objects = [JStr ''objects'']"
| "fragment S M_points = [JStr ''points'']"
| "fragment S (M_hashes p) = [JStr ''hashes'', num_val p]"
| "fragment S (M_getObject k i) = [JStr ''GET'', JStr k, JStr i]"
| "fragment S (M_bounds a b c d) = [JStr ''BOUNDS'', JNum a, JNum b, JNum c, JNum d]"
| "fragment S (M_object g) = [JStr ''OBJECT'', JStr (S g)]"
| "fragment S (M_tile x y z) = [JStr ''TILE'', JNum x, JNum y, JNum z]"
| "fragment S (M_quadKey k) = [JStr ''QUADKEY'', JStr k]"
| "fragment S (M_hash h) = [JStr ''HASH'', JStr h]"
| "fragment S (M_circle a b m) = [JStr ''CIRCLE'', JNum a, JNum b, JNum m]"
| "fragment S (M_point a b m) =
     (case m of None \<Rightarrow> [JStr ''POINT'', JNum a, JNum b]
      | Some d \<Rightarrow> [JStr ''POINT'', JNum a, JNum b, JNum d])"
| "fragment S (M_roam k p m) = [JStr ''ROAM'', JStr k, JStr p, JNum m]"
| "fragment S (M_executeFence cb) = [JStr ''FENCE'']"

text \<open>What a kind holds before any call of that kind: nothing, except that the
  order clause starts as ascending (the initialiser of the \<open>order\<close> field).\<close>

fun initial_clause :: "kind \<Rightarrow> jsval list" where
  "initial_clause K_order = [JStr ''ASC'']"
| "initial_clause _ = []"

text \<open>The clause group of a kind after a sequence of calls: the fragments of the
  calls of that kind, all of them in call order when the kind is repeatable, the last
  one otherwise.\<close>

fun clause_group :: "('g \<Rightarrow> string) \<Rightarrow> kind \<Rightarrow> ('g, 'cb) call list \<Rightarrow> jsval list" where
  "clause_group S k cs =
     (case filter (\<lambda>c. kind_of c = k) cs of
        [] \<Rightarrow> initial_clause k
      | c # cs' \<Rightarrow>
          if repeatable k then concat (map (fragment S) (c # cs'))
          else fragment S (last (c # cs')))"

definition spec_serialize :: "('g \<Rightarrow> string) \<Rightarrow> string \<Rightarrow> ('g, 'cb) call list \<Rightarrow> jsval list" where
  "spec_serialize S k cs = JStr k # concat (map (\<lambda>kd. clause_group S kd cs) fixed_order)"

section \<open>The live geofence channel (class LiveGeofence)\<close>

text \<open>
  The channel owns a \<open>net.Socket\<close> and a \<open>redis-parser\<close> decoder, both of the
  platform. Of the socket the model keeps its \<open>destroyed\<close> flag, which
  \<open>socket.destroy()\<close> sets; of the decoder it keeps the frames it hands to its three
  callbacks. Everything the channel does to the outside (socket calls, logger calls,
  invocations of the caller's handler and of the close observer) is an action, and
  every method and listener returns the actions it performed, in order, with the new
  state of the channel.
\<close>

record Socket =
  destroyed :: bool

record 'c LiveGeofence =
  debug :: bool
  socket :: "Socket option"
  onCloseCb :: "'c option"

definition new_LiveGeofence :: "bool \<Rightarrow> 'c LiveGeofence" where
  "new_LiveGeofence dbg = \<lparr> debug = dbg, socket = None, onCloseCb = None \<rparr>"

datatype ('h, 'c) action =
    SocketConnect number string
  | SocketWrite string
  | SocketDestroy
  | LoggerLog string
  | LoggerWarn string
  | LoggerError string
  | Callback 'h jsval jsval
  | OnCloseCb 'c bool
  | Uncaught string

text \<open>A frame decoded by the parser, named after the callback it is handed to.\<close>

datatype frame = ReturnReply string | ReturnError string | ReturnFatalError string

definition CRLF :: string where
  "CRLF = [CHR 0x0D, CHR 0x0A]"

text \<open>\<open>open\<close>: creates the socket, stores it, starts connecting and registers the
  listeners below. The listeners close over \<open>password\<close>, \<open>command\<close> and \<open>callback\<close>,
  which are their parameters here.\<close>

definition open' ::
  "string \<Rightarrow> number \<Rightarrow> string \<Rightarrow> string \<Rightarrow> 'h \<Rightarrow> 'c LiveGeofence
     \<Rightarrow> ('h, 'c) action list \<times> 'c LiveGeofence" where
  "open' host port password command callback this =
     ([SocketConnect port host], this\<lparr>socket := Some \<lparr>destroyed = False\<rparr>\<rparr>)"

text \<open>The callback of \<open>socket.connect\<close>; an empty password is falsy.\<close>

definition on_connect ::
  "string \<Rightarrow> string \<Rightarrow> 'c LiveGeofence \<Rightarrow> ('h, 'c) action list \<times> 'c LiveGeofence" where
  "on_connect password command this =
     ((if password \<noteq> [] then [SocketWrite (''AUTH '' @ password @ CRLF)] else [])
        @ [SocketWrite (command @ CRLF)], this)"

text \<open>The listener of the socket's \<open>'close'\<close> event.\<close>

definition on_socket_close :: "'c LiveGeofence \<Rightarrow> ('h, 'c) action list \<times> 'c LiveGeofence" where
  "on_socket_close this =
     (case onCloseCb this of
        Some cb \<Rightarrow> ([OnCloseCb cb False], this)
      | None \<Rightarrow> ([], this))"

text \<open>\<open>returnReply\<close>. \<open>JSON.parse\<close> is the platform's: the parameter \<open>parse\<close>, which
  is \<open>None\<close> where \<open>JSON.parse\<close> throws.\<close>

definition smells_like_json :: "string \<Rightarrow> bool" where
  "smells_like_json reply =
     (case reply of [] \<Rightarrow> False | f # _ \<Rightarrow> f = CHR ''{'' \<or> f = CHR ''['')"

definition returnReply ::
  "(string \<Rightarrow> jsval option) \<Rightarrow> 'h \<Rightarrow> string \<Rightarrow> 'c LiveGeofence
     \<Rightarrow> ('h, 'c) action list \<times> 'c LiveGeofence" where
  "returnReply parse callback reply this =
     (let logged = (if debug this then [LoggerLog reply] else [])
      in if reply = ''OK'' then (logged, this)
         else if smells_like_json reply
         then (case parse reply of
                 Some response \<Rightarrow> (logged @ [Callback callback JNull response], this)
               | None \<Rightarrow>
                   (logged @ [LoggerWarn (''Unable to parse server response: '' @ reply),
                              Callback callback JNull (JStr reply)], this))
         else (logged @ [Callback callback JNull (JStr reply)], this))"

definition returnError ::
  "'h \<Rightarrow> string \<Rightarrow> 'c LiveGeofence \<Rightarrow> ('h, 'c) action list \<times> 'c LiveGeofence" where
  "returnError callback err this =
     ([LoggerError (''live socket error: '' @ err), Callback callback (JStr err) JNull], this)"

text \<open>\<open>returnFatalError\<close>: logs, destroys the socket, then calls the handler.
  Reading \<open>destroy\<close> of a missing socket is a TypeError, which ends the callback.\<close>

definition returnFatalError ::
  "'h \<Rightarrow> string \<Rightarrow> 'c LiveGeofence \<Rightarrow> ('h, 'c) action list \<times> 'c LiveGeofence" where
  "returnFatalError callback err this =
     (case socket this of
        Some s \<Rightarrow>
          ([LoggerError (''fatal live socket error: '' @ err), SocketDestroy,
            Callback callback (JStr err) JNull],
           this\<lparr>socket := Some (s\<lparr>destroyed := True\<rparr>)\<rparr>)
      | None \<Rightarrow>
          ([LoggerError (''fatal live socket error: '' @ err), Uncaught ''TypeError''], this))"

text \<open>The listener of the socket's \<open>'data'\<close> event feeds the chunk to the parser,
  which calls back once for each frame it decodes, in order.\<close>

fun deliver ::
  "(string \<Rightarrow> jsval option) \<Rightarrow> 'h \<Rightarrow> frame \<Rightarrow> 'c LiveGeofence
     \<Rightarrow> ('h, 'c) action list \<times> 'c LiveGeofence" where
  "deliver parse callback (ReturnReply reply) this = returnReply parse callback reply this"
| "deliver parse callback (ReturnError err) this = returnError callback err this"
| "deliver parse callback (ReturnFatalError err) this = returnFatalError callback err this"

fun on_data ::
  "(string \<Rightarrow> jsval option) \<Rightarrow> 'h \<Rightarrow> frame list \<Rightarrow> 'c LiveGeofence
     \<Rightarrow> ('h, 'c) action list \<times> 'c LiveGeofence" where
  "on_data parse callback [] this = ([], this)"
| "on_data parse callback (f # fs) this =
     (let (acts1, this1) = deliver parse callback f this;
          (acts2, this2) = on_data parse callback fs this1
      in (acts1 @ acts2, this2))"

definition onClose :: "'c \<Rightarrow> 'c LiveGeofence \<Rightarrow> ('h, 'c) action list \<times> 'c LiveGeofence" where
  "onClose callback this = ([], this\<lparr>onCloseCb := Some callback\<rparr>)"

definition close :: "'c LiveGeofence \<Rightarrow> ('h, 'c) action list \<times> 'c LiveGeofence" where
  "close this =
     (case socket this of
        Some s \<Rightarrow> ([SocketDestroy], this\<lparr>socket := Some (s\<lparr>destroyed := True\<rparr>)\<rparr>)
      | None \<Rightarrow> ([], this))"

subsection \<open>Runs of an open channel\<close>

text \<open>
  What happens to a channel after \<open>open\<close>: the caller calls \<open>onClose\<close> or \<open>close\<close>, or
  the socket emits an event to one of the listeners. The socket emits \<open>'close'\<close> once
  it is fully closed, whether the peer ended the connection or \<open>destroy()\<close> was called
  on it.
\<close>

datatype 'c event =
    CallOnClose 'c
  | CallClose
  | EmitConnect
  | EmitData "frame list"
  | EmitClose

record 'h conn =
  c_password :: string
  c_command :: string
  c_callback :: 'h
  c_parse :: "string \<Rightarrow> jsval option"

fun step ::
  "'h conn \<Rightarrow> 'c event \<Rightarrow> 'c LiveGeofence \<Rightarrow> ('h, 'c) action list \<times> 'c LiveGeofence" where
  "step cn (CallOnClose cb) this = onClose cb this"
| "step cn CallClose this = close this"
| "step cn EmitConnect this = on_connect (c_password cn) (c_command cn) this"
| "step cn (EmitData fs) this = on_data (c_parse cn) (c_callback cn) fs this"
| "step cn EmitClose this = on_socket_close this"

fun run ::
  "'h conn \<Rightarrow> 'c event list \<Rightarrow> 'c LiveGeofence \<Rightarrow> ('h, 'c) action list \<times> 'c LiveGeofence" where
  "run cn [] this = ([], this)"
| "run cn (e # es) this =
     (let (acts1, this1) = step cn e this;
          (acts2, this2) = run cn es this1
      in (acts1 @ acts2, this2))"

text \<open>The invocations of the caller's handler, and of the close observer, in a list
  of actions.\<close>

fun is_Callback :: "('h, 'c) action \<Rightarrow> bool" where
  "is_Callback (Callback h e r) = True"
| "is_Callback _ = False"

fun is_OnCloseCb :: "('h, 'c) action \<Rightarrow> bool" where
  "is_OnCloseCb (OnCloseCb c b) = True"
| "is_OnCloseCb _ = False"

definition handler_calls :: "('h, 'c) action list \<Rightarrow> ('h, 'c) action list" where
  "handler_calls acts = filter is_Callback acts"

definition observer_calls :: "('h, 'c) action list \<Rightarrow> ('h, 'c) action list" where
  "observer_calls acts = filter is_OnCloseCb acts"


section \<open>Properties of serialization\<close>

lemmas method_defs =
  cursor_def limit_def sparse_def match_def order_def asc_def desc_def distance_def
  where'_def whereIn_def whereEval_def whereEvalSha_def clip_def nofields_def detect_def
  commands_def output'_def ids_def count_def objects_def points_def hashes_def
  getObject_def bounds_def object_def tile_def quadKey_def hash_def circle_def point_def
  roam_def executeFence_def commandArr_def

lemma push_opt_append: "push_opt o' cmd c = cmd @ push_opt o' [] c"
  by (simp add: push_opt_def Let_def split: jsval.splits)

lemma foldl_push_opt: "foldl (push_opt o') cmd cs = cmd @ concat (map (push_opt o' []) cs)"
proof (induction cs arbitrary: cmd)
  case Nil
  show ?case by simp
next
  case (Cons c cs)
  have "foldl (push_opt o') cmd (c # cs) = foldl (push_opt o') (push_opt o' cmd c) cs"
    by simp
  also have "\<dots> = push_opt o' cmd c @ concat (map (push_opt o' []) cs)"
    by (rule Cons.IH)
  also have "\<dots> = cmd @ concat (map (push_opt o' []) (c # cs))"
    using push_opt_append [of o' cmd c] by simp
  finally show ?case .
qed

lemma commandArr_concat:
  "fst (commandArr q) = JStr (key q) # concat (map (push_opt (options q) []) command_names)"
  by (simp add: commandArr_def Let_def foldl_push_opt)

lemma command_names_fixed_order: "command_names = map name_of fixed_order"
  by (simp add: command_names_def fixed_order_def)

lemma repeatable_initial: "repeatable k \<Longrightarrow> initial_clause k = []"
  by (cases k) simp_all

lemma clause_group_snoc:
  "clause_group S k (cs @ [c]) =
     (if kind_of c = k
      then (if repeatable k then clause_group S k cs @ fragment S c else fragment S c)
      else clause_group S k cs)"
  by (cases "filter (\<lambda>c. kind_of c = k) cs") (simp_all add: repeatable_initial)

lemma run_calls_snoc:
  "run_calls S (cs @ [c]) q =
     (case run_calls S cs q of Inl e \<Rightarrow> Inl e | Inr q' \<Rightarrow> apply_call S c q')"
  by (induction cs arbitrary: q) (simp_all split: sum.splits)

lemma apply_call_key: "apply_call S c q = Inr q' \<Longrightarrow> key q' = key q \<and> qtype q' = qtype q"
  by (cases c) (auto simp: method_defs Let_def split: if_splits option.splits)

lemma push_opt_initial:
  "push_opt new_Tile38QueryOpts [] (name_of k) = initial_clause k"
  by (cases k) (simp_all add: push_opt_def opt_get_def new_Tile38QueryOpts_def)

lemma apply_call_push_opt_aux:
  "case apply_call S c q of
     Inl e \<Rightarrow> True
   | Inr q' \<Rightarrow>
       push_opt (options q') [] (name_of k) =
         (if kind_of c = k
          then (if repeatable k then push_opt (options q) [] (name_of k) @ fragment S c
                else fragment S c)
          else push_opt (options q) [] (name_of k))"
  by (cases c; cases k)
     (simp_all add: method_defs push_opt_def opt_get_def Let_def split: option.splits
        cong: jsval.case_cong)

lemma apply_call_push_opt:
  assumes "apply_call S c q = Inr q'"
  shows "push_opt (options q') [] (name_of k) =
     (if kind_of c = k
      then (if repeatable k then push_opt (options q) [] (name_of k) @ fragment S c
            else fragment S c)
      else push_opt (options q) [] (name_of k))"
  using apply_call_push_opt_aux [where S = S and c = c and q = q and k = k] assms by simp


lemma run_calls_invariant:
  "run_calls S cs (new_Tile38Query t k0) = Inr q \<Longrightarrow>
     key q = k0 \<and> qtype q = t \<and>
     (\<forall>kd. push_opt (options q) [] (name_of kd) = clause_group S kd cs)"
proof (induction cs arbitrary: q rule: rev_induct)
  case Nil
  then show ?case
    by (auto simp: new_Tile38Query_def push_opt_initial)
next
  case (snoc c cs)
  from snoc.prems obtain q0 where
    r: "run_calls S cs (new_Tile38Query t k0) = Inr q0" and a: "apply_call S c q0 = Inr q"
    by (auto simp: run_calls_snoc split: sum.splits)
  from snoc.IH [OF r] have k: "key q0 = k0" and ty: "qtype q0 = t"
    and g: "\<And>kd. push_opt (options q0) [] (name_of kd) = clause_group S kd cs"
    by simp_all
  have "push_opt (options q) [] (name_of kd) = clause_group S kd (cs @ [c])" for kd
    unfolding apply_call_push_opt [OF a] clause_group_snoc g ..
  with apply_call_key [OF a] k ty show ?case by simp
qed


lemma order_twice: "order y (order x q) = order y q"
  by (simp add: order_def)

lemma distance_twice: "distance (distance q) = distance q"
  by (simp add: distance_def)

lemma clip_twice: "clip (clip q) = clip q"
  by (simp add: clip_def)

lemma nofields_twice: "nofields (nofields q) = nofields q"
  by (simp add: nofields_def)

lemma output_twice: "output' t2 p2 (output' t1 p1 q) = output' t2 p2 q"
  by (simp add: output'_def)

lemma bounds_twice: "bounds a2 b2 c2 d2 (bounds a1 b1 c1 d1 q) = bounds a2 b2 c2 d2 q"
  by (simp add: bounds_def)

lemma object_twice: "object S g2 (object S g1 q) = object S g2 q"
  by (simp add: object_def)

lemma tile_twice: "tile x2 y2 z2 (tile x1 y1 z1 q) = tile x2 y2 z2 q"
  by (simp add: tile_def)

lemma quadKey_twice: "quadKey k2 (quadKey k1 q) = quadKey k2 q"
  by (simp add: quadKey_def)

lemma hash_twice: "hash h2 (hash h1 q) = hash h2 q"
  by (simp add: hash_def)

lemma point_twice: "point a2 b2 m2 (point a1 b1 m1 q) = point a2 b2 m2 q"
  by (simp add: point_def Let_def split: option.splits)

lemma circle_twice: "circle a2 b2 m2 (circle a1 b1 m1 q) = circle a2 b2 m2 q"
  by (simp add: circle_def)

lemma roam_twice: "roam k2 p2 m2 (roam k1 p1 m1 q) = roam k2 p2 m2 q"
  by (simp add: roam_def)

lemma executeFence_state:
  "snd (executeFence cb q) = q\<lparr>options := (options q)\<lparr>o_fence := Some ''FENCE''\<rparr>\<rparr>"
  by (simp add: executeFence_def commandArr_def Let_def)

lemma executeFence_twice:
  "snd (executeFence cb2 (snd (executeFence cb1 q))) = snd (executeFence cb2 q)"
  by (simp add: executeFence_state)

lemma order_last: "order y (order x q) = q\<lparr>options := (options q)\<lparr>o_order := y\<rparr>\<rparr>"
  by (simp add: order_def)

lemma distance_last:
  "distance (distance q) = q\<lparr>options := (options q)\<lparr>o_distance := Some ''DISTANCE''\<rparr>\<rparr>"
  by (simp add: distance_def)

lemma clip_last: "clip (clip q) = q\<lparr>options := (options q)\<lparr>o_clip := Some ''CLIP''\<rparr>\<rparr>"
  by (simp add: clip_def)

lemma nofields_last:
  "nofields (nofields q) = q\<lparr>options := (options q)\<lparr>o_nofields := Some ''NOFIELDS''\<rparr>\<rparr>"
  by (simp add: nofields_def)

lemma output_last:
  "output' t2 p2 (output' t1 p1 q) =
     q\<lparr>options := (options q)
        \<lparr>o_output := Some (if t2 = Hashes then [JStr ''hashes'', num_val p2]
                           else [JStr (OutputType_str t2)])\<rparr>\<rparr>"
  by (simp add: output'_def)

lemma bounds_last:
  "bounds a2 b2 c2 d2 (bounds a1 b1 c1 d1 q) =
     q\<lparr>options := (options q)
        \<lparr>o_bounds := Some [JStr ''BOUNDS'', JNum a2, JNum b2, JNum c2, JNum d2]\<rparr>\<rparr>"
  by (simp add: bounds_def)

lemma object_last:
  "object S g2 (object S g1 q) =
     q\<lparr>options := (options q)\<lparr>o_geojson := Some [''OBJECT'', S g2]\<rparr>\<rparr>"
  by (simp add: object_def)

lemma tile_last:
  "tile x2 y2 z2 (tile x1 y1 z1 q) =
     q\<lparr>options := (options q)\<lparr>o_tile := Some [JStr ''TILE'', JNum x2, JNum y2, JNum z2]\<rparr>\<rparr>"
  by (simp add: tile_def)

lemma quadKey_last:
  "quadKey k2 (quadKey k1 q) =
     q\<lparr>options := (options q)\<lparr>o_quadKey := Some [JStr ''QUADKEY'', JStr k2]\<rparr>\<rparr>"
  by (simp add: quadKey_def)

lemma hash_last:
  "hash h2 (hash h1 q) = q\<lparr>options := (options q)\<lparr>o_hash := Some [JStr ''HASH'', JStr h2]\<rparr>\<rparr>"
  by (simp add: hash_def)

lemma point_last:
  "point a2 b2 m2 (point a1 b1 m1 q) =
     q\<lparr>options := (options q)
        \<lparr>o_point := Some (case m2 of None \<Rightarrow> [JStr ''POINT'', JNum a2, JNum b2]
                          | Some d \<Rightarrow> [JStr ''POINT'', JNum a2, JNum b2, JNum d])\<rparr>\<rparr>"
  by (simp add: point_def Let_def split: option.splits)

lemma circle_last:
  "circle a2 b2 m2 (circle a1 b1 m1 q) =
     q\<lparr>options := (options q)
        \<lparr>o_circle := Some [JStr ''CIRCLE'', JNum a2, JNum b2, JNum m2]\<rparr>\<rparr>"
  by (simp add: circle_def)

lemma roam_last:
  "roam k2 p2 m2 (roam k1 p1 m1 q) =
     q\<lparr>options := (options q)
        \<lparr>o_roam := Some [JStr ''ROAM'', JStr k2, JStr p2, JNum m2]\<rparr>\<rparr>"
  by (simp add: roam_def)

lemma executeFence_last:
  "snd (executeFence cb2 (snd (executeFence cb1 q))) =
     q\<lparr>options := (options q)\<lparr>o_fence := Some ''FENCE''\<rparr>\<rparr>"
  by (simp add: executeFence_state)

lemma apply_call_fence_aux:
  "case apply_call S c q of
     Inl e \<Rightarrow> True
   | Inr q' \<Rightarrow> o_fence (options q) = Some ''FENCE'' \<longrightarrow> o_fence (options q') = Some ''FENCE''"
  by (cases c) (simp_all add: method_defs Let_def split: option.splits)

lemma run_calls_fence:
  "run_calls S cs q = Inr q' \<Longrightarrow> o_fence (options q) = Some ''FENCE'' \<Longrightarrow>
     o_fence (options q') = Some ''FENCE''"
proof (induction cs arbitrary: q)
  case Nil
  then show ?case by simp
next
  case (Cons c cs)
  from Cons.prems(1) obtain q1 where
    a: "apply_call S c q = Inr q1" and r: "run_calls S cs q1 = Inr q'"
    by (auto split: sum.splits)
  from apply_call_fence_aux [where S = S and c = c and q = q] a Cons.prems(2)
  have "o_fence (options q1) = Some ''FENCE''" by simp
  with Cons.IH [OF r] show ?case .
qed

lemma push_opt_fence:
  "o_fence o' = Some ''FENCE'' \<Longrightarrow> push_opt o' [] ''fence'' = [JStr ''FENCE'']"
  by (simp add: push_opt_def opt_get_def)

lemma fence_in_commandArr:
  assumes "o_fence (options q) = Some ''FENCE''"
  shows "JStr ''FENCE'' \<in> set (fst (commandArr q))"
proof -
  have "''fence'' \<in> set command_names"
    by (simp add: command_names_def)
  moreover have "JStr ''FENCE'' \<in> set (push_opt (options q) [] ''fence'')"
    by (simp add: push_opt_fence [OF assms])
  ultimately show ?thesis
    unfolding commandArr_concat by (auto intro: bexI [of _ "''fence''"])
qed

section \<open>Properties of the channel\<close>

lemmas channel_defs =
  returnReply_def returnError_def returnFatalError_def on_connect_def on_socket_close_def
  onClose_def close_def

lemma handler_calls_append: "handler_calls (a @ b) = handler_calls a @ handler_calls b"
  by (simp add: handler_calls_def)

lemma observer_calls_append: "observer_calls (a @ b) = observer_calls a @ observer_calls b"
  by (simp add: observer_calls_def)

lemma on_data_append:
  "on_data parse cb (xs @ ys) this =
     (let (acts1, this1) = on_data parse cb xs this;
          (acts2, this2) = on_data parse cb ys this1
      in (acts1 @ acts2, this2))"
  by (induction xs arbitrary: this) (simp_all add: Let_def split_def)

lemma returnReply_OK:
  "handler_calls (fst (returnReply parse cb ''OK'' this)) = []
   \<and> snd (returnReply parse cb ''OK'' this) = this"
  by (simp add: returnReply_def handler_calls_def Let_def)

lemma deliver_observer:
  "observer_calls (fst (deliver parse cb f this)) = []
   \<and> onCloseCb (snd (deliver parse cb f this)) = onCloseCb this"
  by (cases f)
     (simp_all add: channel_defs observer_calls_def Let_def split: option.splits)

lemma observer_calls_Nil: "observer_calls [] = []"
  by (simp add: observer_calls_def)

lemma on_data_observer:
  "observer_calls (fst (on_data parse cb fs this)) = []
   \<and> onCloseCb (snd (on_data parse cb fs this)) = onCloseCb this"
  by (induction fs arbitrary: this)
     (simp_all add: Let_def split_def observer_calls_append deliver_observer observer_calls_Nil)

lemma step_observer:
  "observer_calls (fst (step cn e this)) =
     (if e = EmitClose
      then (case onCloseCb this of Some c \<Rightarrow> [OnCloseCb c False] | None \<Rightarrow> [])
      else [])"
proof (cases e)
  case (EmitData fs)
  then show ?thesis by (simp add: on_data_observer)
qed (simp_all add: channel_defs observer_calls_def split: option.splits)

lemma step_registered:
  "onCloseCb this \<noteq> None \<Longrightarrow> onCloseCb (snd (step cn e this)) \<noteq> None"
proof (cases e)
  case (EmitData fs)
  then show "onCloseCb this \<noteq> None \<Longrightarrow> ?thesis" by (simp add: on_data_observer)
qed (simp_all add: channel_defs split: option.splits)

lemma run_Cons:
  "fst (run cn (e # evs) this)
      = fst (step cn e this) @ fst (run cn evs (snd (step cn e this)))"
  by (simp add: Let_def split_def)

lemma run_observer:
  "(\<forall>a \<in> set (observer_calls (fst (run cn evs this))). \<exists>c. a = OnCloseCb c False)
   \<and> length (observer_calls (fst (run cn evs this))) \<le> count_list evs EmitClose
   \<and> (onCloseCb this \<noteq> None \<longrightarrow>
        length (observer_calls (fst (run cn evs this))) = count_list evs EmitClose)"
proof (induction evs arbitrary: this)
  case Nil
  show ?case by (simp add: observer_calls_Nil)
next
  case (Cons e evs)
  let ?this1 = "snd (step cn e this)"
  let ?rest = "observer_calls (fst (run cn evs ?this1))"
  have ih1: "\<forall>a \<in> set ?rest. \<exists>c. a = OnCloseCb c False"
    and ih2: "length ?rest \<le> count_list evs EmitClose"
    and ih3: "onCloseCb ?this1 \<noteq> None \<longrightarrow> length ?rest = count_list evs EmitClose"
    using Cons.IH [of ?this1] by simp_all
  have o: "observer_calls (fst (run cn (e # evs) this))
      = observer_calls (fst (step cn e this)) @ ?rest"
    by (simp only: run_Cons observer_calls_append)
  show ?case
  proof (cases "e = EmitClose")
    case False
    with step_observer [of cn e this]
    have s: "observer_calls (fst (step cn e this)) = []"
      by simp
    from False have c: "count_list (e # evs) EmitClose = count_list evs EmitClose"
      by simp
    from ih1 ih2 ih3 step_registered [of this cn e] show ?thesis
      unfolding o s c by simp
  next
    case True
    then have c: "count_list (e # evs) EmitClose = Suc (count_list evs EmitClose)"
      by simp
    show ?thesis
    proof (cases "onCloseCb this")
      case None
      with True step_observer [of cn e this]
      have s: "observer_calls (fst (step cn e this)) = []"
        by simp
      from ih1 ih2 None show ?thesis
        unfolding o s c by simp
    next
      case (Some cb0)
      with True step_observer [of cn e this]
      have s: "observer_calls (fst (step cn e this)) = [OnCloseCb cb0 False]"
        by simp
      from Some have "onCloseCb this \<noteq> None" by simp
      from step_registered [OF this, of cn e] ih3 have "length ?rest = count_list evs EmitClose"
        by blast
      with ih1 show ?thesis
        unfolding o s c by simp
    qed
  qed
qed

section \<open>The claims\<close>

text \<open>
  Claim C1. For every sequence of builder calls that runs without an exception on a
  fresh builder, \<open>commandArr\<close> returns the key followed by the clause groups in the
  fixed order of kinds (cursor, limit, sparse, match, order, distance, where, where-in,
  where-eval, where-eval-sha, clip, no-fields, fence, detect, commands, output,
  get-object, bounds, geometry object, tile, quad-key, hash, point, circle, roam),
  whatever the order of the calls was; a repeatable group holds the fragments of its
  calls in call order, a singular group the fragment of its last call.
\<close>

theorem commandArr_fixed_order:
  assumes "run_calls S cs (new_Tile38Query t k) = Inr q"
  shows "fst (commandArr q) = spec_serialize S k cs"
proof -
  from run_calls_invariant [OF assms] have k: "key q = k"
    and g: "\<And>kd. push_opt (options q) [] (name_of kd) = clause_group S kd cs"
    by simp_all
  have "map (push_opt (options q) []) command_names = map (\<lambda>kd. clause_group S kd cs) fixed_order"
    unfolding command_names_fixed_order by (simp add: g)
  then show ?thesis
    by (simp add: commandArr_concat spec_serialize_def k)
qed

theorem commandArr_fixed_order_witness:
  "run_calls (\<lambda>g::unit. ''{}'')
     [M_match ''a*'', M_limit 5, M_desc, M_match ''b*'', M_cursor 2, M_executeFence (0::nat), M_limit 7]
     (new_Tile38Query ''SCAN'' ''fleet'')
     = Inr \<lparr> qtype = ''SCAN'', key = ''fleet'', options = new_Tile38QueryOpts
         \<lparr> o_matches := [JStr ''MATCH'', JStr ''a*'', JStr ''MATCH'', JStr ''b*''],
           o_order := Descending, o_fence := Some ''FENCE'',
           o_cursor := Some (''CURSOR'', 2), o_limit := Some (''LIMIT'', 7) \<rparr> \<rparr>
   \<and> fst (commandArr \<lparr> qtype = ''SCAN'', key = ''fleet'', options = new_Tile38QueryOpts
         \<lparr> o_matches := [JStr ''MATCH'', JStr ''a*'', JStr ''MATCH'', JStr ''b*''],
           o_order := Descending, o_fence := Some ''FENCE'',
           o_cursor := Some (''CURSOR'', 2), o_limit := Some (''LIMIT'', 7) \<rparr> \<rparr>)
     = [JStr ''fleet'', JStr ''CURSOR'', JNum 2, JStr ''LIMIT'', JNum 7,
        JStr ''MATCH'', JStr ''a*'', JStr ''MATCH'', JStr ''b*'', JStr ''DESC'', JStr ''FENCE'']"
proof -
  have r: "run_calls (\<lambda>g::unit. ''{}'')
     [M_match ''a*'', M_limit 5, M_desc, M_match ''b*'', M_cursor 2, M_executeFence (0::nat), M_limit 7]
     (new_Tile38Query ''SCAN'' ''fleet'')
     = Inr \<lparr> qtype = ''SCAN'', key = ''fleet'', options = new_Tile38QueryOpts
         \<lparr> o_matches := [JStr ''MATCH'', JStr ''a*'', JStr ''MATCH'', JStr ''b*''],
           o_order := Descending, o_fence := Some ''FENCE'',
           o_cursor := Some (''CURSOR'', 2), o_limit := Some (''LIMIT'', 7) \<rparr> \<rparr>"
    by (simp add: method_defs new_Tile38Query_def new_Tile38QueryOpts_def Let_def)
  show ?thesis
    using r commandArr_fixed_order [OF r]
    by (simp add: spec_serialize_def fixed_order_def)
qed

text \<open>
  Claim C2: \<open>hashes(precision)\<close> throws exactly when the precision is outside 1..22,
  so that \<open>hashes(1)\<close> and \<open>hashes(22)\<close> succeed and set the output clause. The
  code does otherwise: the first disjunct of its guard, \<open>precision != undefined\<close>,
  holds for every number, so \<open>hashes(1)\<close> and \<open>hashes(22)\<close> throw the error whose
  message asks for a precision between 1 and 22.
\<close>

theorem hashes_in_range_throws:
  "hashes (Some 1) q = Inl (Error ''for the hashes output type, precision must be a integer between 1 and 22 inclusive.'')
   \<and> hashes (Some 22) q = Inl (Error ''for the hashes output type, precision must be a integer between 1 and 22 inclusive.'')"
  by (simp add: hashes_def)

theorem hashes_in_range_throws_witness:
  "hashes (Some 1) (new_Tile38Query ''SCAN'' ''fleet'') \<noteq> Inr (output' Hashes (Some 1) (new_Tile38Query ''SCAN'' ''fleet''))
   \<and> hashes (Some 22) (new_Tile38Query ''SCAN'' ''fleet'') \<noteq> Inr (output' Hashes (Some 22) (new_Tile38Query ''SCAN'' ''fleet''))"
  using hashes_in_range_throws [of "new_Tile38Query ''SCAN'' ''fleet''"] by simp

text \<open>
  Claim C3: when the caller invokes \<open>close()\<close> and no peer-initiated closure
  occurs, the close observer is never invoked. The code does otherwise. The caller
  registers an observer and calls \<open>close()\<close>, which destroys the socket; the destroyed
  socket emits its \<open>'close'\<close> event, and the listener, which keeps no record of
  \<open>close()\<close> having been called, invokes the observer with \<open>false\<close>, although the
  source documents the observer as the notification of an unexpected closure.
\<close>

theorem explicit_close_invokes_observer:
  "socket (snd (run
        \<lparr>c_password = [], c_command = ''NEARBY fleet FENCE POINT 1 2'', c_callback = 0::nat,
          c_parse = map_of []\<rparr>
        [CallOnClose (7::nat), CallClose]
        (snd (open' ''localhost'' 9851 [] ''NEARBY fleet FENCE POINT 1 2'' (0::nat)
          (new_LiveGeofence False)))))
     = Some \<lparr>destroyed = True\<rparr>
   \<and> fst (run
        \<lparr>c_password = [], c_command = ''NEARBY fleet FENCE POINT 1 2'', c_callback = 0::nat,
          c_parse = map_of []\<rparr>
        [CallOnClose (7::nat), CallClose, EmitClose]
        (snd (open' ''localhost'' 9851 [] ''NEARBY fleet FENCE POINT 1 2'' (0::nat)
          (new_LiveGeofence False))))
     = [SocketDestroy, OnCloseCb 7 False]"
  by (simp add: channel_defs open'_def new_LiveGeofence_def)

theorem explicit_close_invokes_observer_witness:
  "observer_calls (fst (run
        \<lparr>c_password = [], c_command = ''NEARBY fleet FENCE POINT 1 2'', c_callback = 0::nat,
          c_parse = map_of []\<rparr>
        [CallOnClose (7::nat), CallClose, EmitClose]
        (snd (open' ''localhost'' 9851 [] ''NEARBY fleet FENCE POINT 1 2'' (0::nat)
          (new_LiveGeofence False)))))
     = [OnCloseCb 7 False]"
  unfolding explicit_close_invokes_observer [THEN conjunct2]
  by (simp add: observer_calls_def)

text \<open>
  Claim C4, as stated, fails in its last part. For the stream of one acknowledgment,
  one JSON object and one fatal error, the handler is invoked for the JSON frame, and
  then once more, with the error, after the socket has been destroyed.
\<close>

theorem fatal_error_counterexample:
  "fst (on_data (map_of [(''{}'', JObj [])]) (0::nat)
      [ReturnReply ''OK'', ReturnReply ''{}'', ReturnFatalError ''boom'']
      (snd (open' ''localhost'' 9851 [] ''NEARBY fleet FENCE POINT 1 2'' (0::nat)
             (new_LiveGeofence False :: nat LiveGeofence))))
   = [Callback 0 JNull (JObj []), LoggerError ''fatal live socket error: boom'',
      SocketDestroy, Callback 0 (JStr ''boom'') JNull]"
  by (simp add: returnReply_def returnFatalError_def smells_like_json_def open'_def
      new_LiveGeofence_def)

text \<open>
  Claim C4, amended. For a stream of one acknowledgment reply, one JSON-object reply
  and one fatal error on an open channel, the acknowledgment is suppressed, the handler
  is invoked exactly once before the socket is destroyed (with the parsed JSON frame),
  and exactly once more right after the socket is destroyed (with the fatal error and
  a null payload); the channel does nothing after that, and its socket is left
  destroyed.
\<close>

theorem fatal_error_stream:
  assumes "socket this = Some s" and "parse (CHR ''{'' # rest) = Some v"
  shows "fst (on_data parse cb
            [ReturnReply ''OK'', ReturnReply (CHR ''{'' # rest), ReturnFatalError err] this)
      = (if debug this then [LoggerLog ''OK'', LoggerLog (CHR ''{'' # rest)] else [])
        @ [Callback cb JNull v, LoggerError (''fatal live socket error: '' @ err),
           SocketDestroy, Callback cb (JStr err) JNull]
    \<and> snd (on_data parse cb
            [ReturnReply ''OK'', ReturnReply (CHR ''{'' # rest), ReturnFatalError err] this)
      = this\<lparr>socket := Some (s\<lparr>destroyed := True\<rparr>)\<rparr>
    \<and> handler_calls (fst (on_data parse cb
            [ReturnReply ''OK'', ReturnReply (CHR ''{'' # rest), ReturnFatalError err] this))
      = [Callback cb JNull v, Callback cb (JStr err) JNull]"
  using assms
  by (simp add: returnReply_def returnFatalError_def smells_like_json_def handler_calls_def)

theorem fatal_error_stream_witness:
  "socket (snd (open' ''localhost'' 9851 [] ''NEARBY fleet FENCE POINT 1 2'' (0::nat)
             (new_LiveGeofence False :: nat LiveGeofence))) = Some \<lparr>destroyed = False\<rparr>
   \<and> map_of [(''{}'', JObj [])] (CHR ''{'' # ''}'') = Some (JObj [])
   \<and> handler_calls (fst (on_data (map_of [(''{}'', JObj [])]) (0::nat)
      [ReturnReply ''OK'', ReturnReply (CHR ''{'' # ''}''), ReturnFatalError ''boom'']
      (snd (open' ''localhost'' 9851 [] ''NEARBY fleet FENCE POINT 1 2'' (0::nat)
             (new_LiveGeofence False :: nat LiveGeofence)))))
     = [Callback 0 JNull (JObj []), Callback 0 (JStr ''boom'') JNull]"
proof -
  have a: "socket (snd (open' ''localhost'' 9851 [] ''NEARBY fleet FENCE POINT 1 2'' (0::nat)
             (new_LiveGeofence False :: nat LiveGeofence))) = Some \<lparr>destroyed = False\<rparr>"
    by (simp add: open'_def)
  have b: "map_of [(''{}'', JObj [])] (CHR ''{'' # ''}'') = Some (JObj [])"
    by simp
  from a b fatal_error_stream [where parse = "map_of [(''{}'', JObj [])]" and rest = "''}''"
      and v = "JObj []" and cb = "0::nat" and err = "''boom''" and s = "\<lparr>destroyed = False\<rparr>"
      and this = "snd (open' ''localhost'' 9851 [] ''NEARBY fleet FENCE POINT 1 2'' (0::nat)
             (new_LiveGeofence False :: nat LiveGeofence))"]
  show ?thesis
    by blast
qed

text \<open>
  Claim C5. Serialization is idempotent and does not mutate: \<open>commandArr\<close> leaves the
  builder as it found it, and a second call on the builder it left returns the same
  array as the first.
\<close>

theorem commandArr_idempotent:
  "snd (commandArr q) = q
   \<and> fst (commandArr (snd (commandArr q))) = fst (commandArr q)
   \<and> snd (commandArr (snd (commandArr q))) = q"
  by (simp add: commandArr_def Let_def)

theorem commandArr_idempotent_witness:
  "snd (commandArr (match ''a*'' (new_Tile38Query ''SCAN'' ''fleet''))) = match ''a*'' (new_Tile38Query ''SCAN'' ''fleet'')
   \<and> fst (commandArr (snd (commandArr (match ''a*'' (new_Tile38Query ''SCAN'' ''fleet'')))))
       = [JStr ''fleet'', JStr ''MATCH'', JStr ''a*'', JStr ''ASC'']"
proof -
  have "fst (commandArr (match ''a*'' (new_Tile38Query ''SCAN'' ''fleet'')))
       = [JStr ''fleet'', JStr ''MATCH'', JStr ''a*'', JStr ''ASC'']"
    by (simp add: commandArr_concat command_names_def push_opt_def opt_get_def match_def
        new_Tile38Query_def new_Tile38QueryOpts_def)
  with commandArr_idempotent [of "match ''a*'' (new_Tile38Query ''SCAN'' ''fleet'')"]
  show ?thesis by simp
qed

text \<open>
  Claim C6, as stated, fails on a fresh builder: the \<open>order\<close> field is initialised to
  ascending, so the builder serializes to the key followed by \<open>ASC\<close> although
  \<open>order\<close> was never called.
\<close>

theorem fresh_builder_counterexample:
  "fst (commandArr (new_Tile38Query ''SCAN'' ''fleet'')) = [JStr ''fleet'', JStr ''ASC'']
   \<and> fst (commandArr (new_Tile38Query ''SCAN'' ''fleet'')) \<noteq> [JStr ''fleet'']"
  by (simp add: commandArr_concat command_names_def push_opt_def opt_get_def
      new_Tile38Query_def new_Tile38QueryOpts_def)

text \<open>
  Claim C6, amended. After any exception-free sequence of calls on a fresh builder, a
  clause kind other than order that none of the calls belongs to contributes nothing to
  the serialization (no fragment, no placeholder); the order kind contributes \<open>ASC\<close>
  until an order call changes it, and a fresh builder serializes to the key followed by
  \<open>ASC\<close>.
\<close>

theorem absent_clause_contributes_nothing:
  assumes "run_calls S cs (new_Tile38Query t k) = Inr q"
    and "\<forall>c \<in> set cs. kind_of c \<noteq> kd"
  shows "fst (commandArr q) = JStr k # concat (map (push_opt (options q) []) command_names)
    \<and> push_opt (options q) [] (name_of kd) = (if kd = K_order then [JStr ''ASC''] else [])
    \<and> fst (commandArr (new_Tile38Query t k)) = [JStr k, JStr ''ASC'']"
proof -
  from run_calls_invariant [OF assms(1)] have k: "key q = k"
    and g: "push_opt (options q) [] (name_of kd) = clause_group S kd cs"
    by simp_all
  from assms(2) have "filter (\<lambda>c. kind_of c = kd) cs = []"
    by (simp add: filter_empty_conv)
  then have "clause_group S kd cs = initial_clause kd"
    by simp
  moreover have "initial_clause kd = (if kd = K_order then [JStr ''ASC''] else [])"
    by (cases kd) simp_all
  moreover have "fst (commandArr (new_Tile38Query t k)) = [JStr k, JStr ''ASC'']"
    by (simp add: commandArr_concat command_names_def push_opt_def opt_get_def
        new_Tile38Query_def new_Tile38QueryOpts_def)
  ultimately show ?thesis
    using g k by (simp add: commandArr_concat)
qed

theorem absent_clause_contributes_nothing_witness:
  "run_calls (\<lambda>g::unit. ''{}'') [M_limit 5, M_match ''a*'' :: (unit, nat) call]
      (new_Tile38Query ''SCAN'' ''fleet'')
     = Inr (match ''a*'' (limit 5 (new_Tile38Query ''SCAN'' ''fleet'')))
   \<and> kind_of (M_limit 5 :: (unit, nat) call) \<noteq> K_bounds
   \<and> kind_of (M_match ''a*'' :: (unit, nat) call) \<noteq> K_bounds
   \<and> push_opt (options (match ''a*'' (limit 5 (new_Tile38Query ''SCAN'' ''fleet'')))) [] ''bounds'' = []"
proof -
  have r: "run_calls (\<lambda>g::unit. ''{}'') [M_limit 5, M_match ''a*'' :: (unit, nat) call]
      (new_Tile38Query ''SCAN'' ''fleet'')
     = Inr (match ''a*'' (limit 5 (new_Tile38Query ''SCAN'' ''fleet'')))"
    by simp
  have n: "\<forall>c \<in> set [M_limit 5, M_match ''a*'' :: (unit, nat) call]. kind_of c \<noteq> K_bounds"
    by simp
  show ?thesis
    using r absent_clause_contributes_nothing [OF r n] by simp
qed

text \<open>
  Claim C7. For each non-repeatable clause kind (order, distance, clip, no-fields,
  output, bounds, geometry object, tile, quad-key, hash, point, circle, roam, fence),
  calling its method twice leaves the builder as the second call alone would, and that
  is the builder before the two calls with the clause of that kind equal to the value
  of the last call and nothing else changed.
\<close>

theorem last_call_wins:
  "order y (order x q) = order y q
   \<and> distance (distance q) = distance q
   \<and> clip (clip q) = clip q
   \<and> nofields (nofields q) = nofields q
   \<and> output' t2 p2 (output' t1 p1 q) = output' t2 p2 q
   \<and> bounds a2 b2 c2 d2 (bounds a1 b1 c1 d1 q) = bounds a2 b2 c2 d2 q
   \<and> object S g2 (object S g1 q) = object S g2 q
   \<and> tile x2 y2 z2 (tile x1 y1 z1 q) = tile x2 y2 z2 q
   \<and> quadKey k2 (quadKey k1 q) = quadKey k2 q
   \<and> hash h2 (hash h1 q) = hash h2 q
   \<and> point la2 lo2 m2 (point la1 lo1 m1 q) = point la2 lo2 m2 q
   \<and> circle ca2 cb2 cm2 (circle ca1 cb1 cm1 q) = circle ca2 cb2 cm2 q
   \<and> roam rk2 rp2 rm2 (roam rk1 rp1 rm1 q) = roam rk2 rp2 rm2 q
   \<and> snd (executeFence f2 (snd (executeFence f1 q))) = snd (executeFence f2 q)
   \<and> order y (order x q) = q\<lparr>options := (options q)\<lparr>o_order := y\<rparr>\<rparr>
   \<and> distance (distance q) = q\<lparr>options := (options q)\<lparr>o_distance := Some ''DISTANCE''\<rparr>\<rparr>
   \<and> clip (clip q) = q\<lparr>options := (options q)\<lparr>o_clip := Some ''CLIP''\<rparr>\<rparr>
   \<and> nofields (nofields q) = q\<lparr>options := (options q)\<lparr>o_nofields := Some ''NOFIELDS''\<rparr>\<rparr>
   \<and> output' t2 p2 (output' t1 p1 q) =
       q\<lparr>options := (options q)
          \<lparr>o_output := Some (if t2 = Hashes then [JStr ''hashes'', num_val p2]
                             else [JStr (OutputType_str t2)])\<rparr>\<rparr>
   \<and> bounds a2 b2 c2 d2 (bounds a1 b1 c1 d1 q) =
       q\<lparr>options := (options q)
          \<lparr>o_bounds := Some [JStr ''BOUNDS'', JNum a2, JNum b2, JNum c2, JNum d2]\<rparr>\<rparr>
   \<and> object S g2 (object S g1 q) =
       q\<lparr>options := (options q)\<lparr>o_geojson := Some [''OBJECT'', S g2]\<rparr>\<rparr>
   \<and> tile x2 y2 z2 (tile x1 y1 z1 q) =
       q\<lparr>options := (options q)\<lparr>o_tile := Some [JStr ''TILE'', JNum x2, JNum y2, JNum z2]\<rparr>\<rparr>
   \<and> quadKey k2 (quadKey k1 q) =
       q\<lparr>options := (options q)\<lparr>o_quadKey := Some [JStr ''QUADKEY'', JStr k2]\<rparr>\<rparr>
   \<and> hash h2 (hash h1 q) =
       q\<lparr>options := (options q)\<lparr>o_hash := Some [JStr ''HASH'', JStr h2]\<rparr>\<rparr>
   \<and> point la2 lo2 m2 (point la1 lo1 m1 q) =
       q\<lparr>options := (options q)
          \<lparr>o_point := Some (case m2 of None \<Rightarrow> [JStr ''POINT'', JNum la2, JNum lo2]
                            | Some d \<Rightarrow> [JStr ''POINT'', JNum la2, JNum lo2, JNum d])\<rparr>\<rparr>
   \<and> circle ca2 cb2 cm2 (circle ca1 cb1 cm1 q) =
       q\<lparr>options := (options q)
          \<lparr>o_circle := Some [JStr ''CIRCLE'', JNum ca2, JNum cb2, JNum cm2]\<rparr>\<rparr>
   \<and> roam rk2 rp2 rm2 (roam rk1 rp1 rm1 q) =
       q\<lparr>options := (options q)
          \<lparr>o_roam := Some [JStr ''ROAM'', JStr rk2, JStr rp2, JNum rm2]\<rparr>\<rparr>
   \<and> snd (executeFence f2 (snd (executeFence f1 q))) =
       q\<lparr>options := (options q)\<lparr>o_fence := Some ''FENCE''\<rparr>\<rparr>"
  by (intro conjI order_twice distance_twice clip_twice nofields_twice output_twice
      bounds_twice object_twice tile_twice quadKey_twice hash_twice point_twice
      circle_twice roam_twice executeFence_twice order_last distance_last clip_last
      nofields_last output_last bounds_last object_last tile_last quadKey_last hash_last
      point_last circle_last roam_last executeFence_last)

theorem last_call_wins_witness:
  "order Descending (order Ascending (new_Tile38Query ''SCAN'' ''fleet''))
     = order Descending (new_Tile38Query ''SCAN'' ''fleet'')
   \<and> o_order (options (order Descending (order Ascending (new_Tile38Query ''SCAN'' ''fleet''))))
     = Descending
   \<and> o_point (options (point 1 2 None (point 3 4 (Some 5) (new_Tile38Query ''SCAN'' ''fleet''))))
     = Some [JStr ''POINT'', JNum 1, JNum 2]
   \<and> o_limit (options (point 1 2 None (point 3 4 (Some 5) (new_Tile38Query ''SCAN'' ''fleet''))))
     = None"
proof -
  have a: "order Descending (order Ascending (new_Tile38Query ''SCAN'' ''fleet''))
     = order Descending (new_Tile38Query ''SCAN'' ''fleet'')"
    by (rule last_call_wins [THEN conjunct1])
  have b: "order Descending (order Ascending (new_Tile38Query ''SCAN'' ''fleet''))
     = (new_Tile38Query ''SCAN'' ''fleet'')
         \<lparr>options := (options (new_Tile38Query ''SCAN'' ''fleet''))\<lparr>o_order := Descending\<rparr>\<rparr>"
    by (rule last_call_wins [THEN conjunct2, THEN conjunct2, THEN conjunct2, THEN conjunct2,
          THEN conjunct2, THEN conjunct2, THEN conjunct2, THEN conjunct2, THEN conjunct2,
          THEN conjunct2, THEN conjunct2, THEN conjunct2, THEN conjunct2, THEN conjunct2,
          THEN conjunct1])
  have c: "point 1 2 None (point 3 4 (Some 5) (new_Tile38Query ''SCAN'' ''fleet''))
     = (new_Tile38Query ''SCAN'' ''fleet'')
         \<lparr>options := (options (new_Tile38Query ''SCAN'' ''fleet''))
            \<lparr>o_point := Some (case None of None \<Rightarrow> [JStr ''POINT'', JNum 1, JNum 2]
                              | Some d \<Rightarrow> [JStr ''POINT'', JNum 1, JNum 2, JNum d])\<rparr>\<rparr>"
    by (rule last_call_wins [THEN conjunct2, THEN conjunct2, THEN conjunct2, THEN conjunct2, THEN conjunct2, THEN conjunct2, THEN conjunct2, THEN conjunct2, THEN conjunct2, THEN conjunct2, THEN conjunct2, THEN conjunct2, THEN conjunct2, THEN conjunct2, THEN conjunct2, THEN conjunct2, THEN conjunct2, THEN conjunct2, THEN conjunct2, THEN conjunct2, THEN conjunct2, THEN conjunct2, THEN conjunct2, THEN conjunct2,
          THEN conjunct1])
  from b have b': "o_order (options (order Descending (order Ascending (new_Tile38Query ''SCAN'' ''fleet''))))
     = Descending"
    by simp
  from c have c1: "o_point (options (point 1 2 None (point 3 4 (Some 5) (new_Tile38Query ''SCAN'' ''fleet''))))
     = Some [JStr ''POINT'', JNum 1, JNum 2]"
    by simp
  from c have c2: "o_limit (options (point 1 2 None (point 3 4 (Some 5) (new_Tile38Query ''SCAN'' ''fleet''))))
     = None"
    by (simp add: new_Tile38Query_def new_Tile38QueryOpts_def)
  from a b' c1 c2 show ?thesis
    by (intro conjI)
qed




text \<open>
  Claim C9. A reply equal to \<open>OK\<close> never reaches the handler, wherever it stands in
  the stream of decoded frames: the handler sees the same calls, and the channel ends
  in the same state, as if the frame were not there. A later payload that is the text
  \<open>OK\<close> is dropped like the first acknowledgment.
\<close>

theorem ok_reply_never_forwarded:
  "handler_calls (fst (returnReply parse cb ''OK'' this)) = []
   \<and> snd (returnReply parse cb ''OK'' this) = this
   \<and> handler_calls (fst (on_data parse cb (xs @ ReturnReply ''OK'' # ys) this))
       = handler_calls (fst (on_data parse cb (xs @ ys) this))
   \<and> snd (on_data parse cb (xs @ ReturnReply ''OK'' # ys) this)
       = snd (on_data parse cb (xs @ ys) this)"
proof -
  have "handler_calls (fst (on_data parse cb (ReturnReply ''OK'' # ys) s))
        = handler_calls (fst (on_data parse cb ys s))
      \<and> snd (on_data parse cb (ReturnReply ''OK'' # ys) s) = snd (on_data parse cb ys s)" for s
    by (simp add: Let_def split_def handler_calls_append returnReply_OK)
  then show ?thesis
    by (simp add: on_data_append [of parse cb xs] Let_def split_def handler_calls_append
        returnReply_OK)
qed

theorem ok_reply_never_forwarded_witness:
  "handler_calls (fst (on_data (map_of [(''{}'', JObj [])]) (0::nat)
      ([ReturnReply ''{}''] @ ReturnReply ''OK'' # [ReturnReply ''hello''])
      (new_LiveGeofence True :: nat LiveGeofence)))
   = [Callback 0 JNull (JObj []), Callback 0 JNull (JStr ''hello'')]"
proof -
  have "handler_calls (fst (on_data (map_of [(''{}'', JObj [])]) (0::nat)
      ([ReturnReply ''{}''] @ [ReturnReply ''hello''])
      (new_LiveGeofence True :: nat LiveGeofence)))
   = [Callback 0 JNull (JObj []), Callback 0 JNull (JStr ''hello'')]"
    by (simp add: returnReply_def smells_like_json_def new_LiveGeofence_def handler_calls_def)
  with ok_reply_never_forwarded [of "map_of [(''{}'', JObj [])]" "0::nat"
      "new_LiveGeofence True :: nat LiveGeofence" "[ReturnReply ''{}'']" "[ReturnReply ''hello'']"]
  show ?thesis by simp
qed

text \<open>
  Claim C10. \<open>executeFence\<close> sets the fence clause of the builder to \<open>FENCE\<close> and
  leaves every other field as it was; it serializes the builder so changed; and after
  any further exception-free calls on that builder the fence clause is still \<open>FENCE\<close>,
  so that every later serialization, the one of \<open>execute\<close> included, contains it.
\<close>

theorem executeFence_mutates_builder:
  assumes "run_calls S cs (snd (executeFence (cb :: 'cb) q)) = Inr q'"
  shows "snd (executeFence cb q) = q\<lparr>options := (options q)\<lparr>o_fence := Some ''FENCE''\<rparr>\<rparr>
    \<and> fst (executeFence cb q)
        = OpenLiveFence (qtype q) (fst (commandArr (snd (executeFence cb q)))) cb
    \<and> o_fence (options q') = Some ''FENCE''
    \<and> push_opt (options q') [] ''fence'' = [JStr ''FENCE'']
    \<and> JStr ''FENCE'' \<in> set (fst (commandArr q'))
    \<and> fst (execute q') = (SendCommand (qtype q') 1 (fst (commandArr q')) :: 'cb request)"
proof -
  have s: "snd (executeFence cb q) = q\<lparr>options := (options q)\<lparr>o_fence := Some ''FENCE''\<rparr>\<rparr>"
    by (rule executeFence_state)
  have r: "fst (executeFence cb q)
        = OpenLiveFence (qtype q) (fst (commandArr (snd (executeFence cb q)))) cb"
    by (simp add: executeFence_def commandArr_def Let_def)
  have "o_fence (options (snd (executeFence cb q))) = Some ''FENCE''"
    by (simp add: s)
  from run_calls_fence [OF assms this] have f: "o_fence (options q') = Some ''FENCE''" .
  have e: "fst (execute q') = (SendCommand (qtype q') 1 (fst (commandArr q')) :: 'cb request)"
    by (simp add: execute_def commandArr_def Let_def)
  from s r f push_opt_fence [OF f] fence_in_commandArr [OF f] e show ?thesis
    by blast
qed

theorem executeFence_mutates_builder_witness:
  "run_calls (\<lambda>g::unit. ''{}'') [M_limit 5 :: (unit, nat) call]
      (snd (executeFence (0::nat) (new_Tile38Query ''NEARBY'' ''fleet'')))
     = Inr (limit 5 (snd (executeFence (0::nat) (new_Tile38Query ''NEARBY'' ''fleet''))))
   \<and> fst (execute (limit 5 (snd (executeFence (0::nat) (new_Tile38Query ''NEARBY'' ''fleet'')))))
     = (SendCommand ''NEARBY'' 1 [JStr ''fleet'', JStr ''LIMIT'', JNum 5, JStr ''ASC'', JStr ''FENCE'']
         :: nat request)
   \<and> JStr ''FENCE'' \<in> set (fst (commandArr (limit 5 (snd (executeFence (0::nat) (new_Tile38Query ''NEARBY'' ''fleet''))))))"
proof -
  have r: "run_calls (\<lambda>g::unit. ''{}'') [M_limit 5 :: (unit, nat) call]
      (snd (executeFence (0::nat) (new_Tile38Query ''NEARBY'' ''fleet'')))
     = Inr (limit 5 (snd (executeFence (0::nat) (new_Tile38Query ''NEARBY'' ''fleet''))))"
    by simp
  have c: "fst (commandArr (limit 5 (snd (executeFence (0::nat) (new_Tile38Query ''NEARBY'' ''fleet'')))))
     = [JStr ''fleet'', JStr ''LIMIT'', JNum 5, JStr ''ASC'', JStr ''FENCE'']"
    by (simp add: commandArr_concat command_names_def push_opt_def opt_get_def limit_def
        executeFence_state new_Tile38Query_def new_Tile38QueryOpts_def)
  have t: "qtype (limit 5 (snd (executeFence (0::nat) (new_Tile38Query ''NEARBY'' ''fleet'')))) = ''NEARBY''"
    by (simp add: limit_def executeFence_state new_Tile38Query_def)
  note w = executeFence_mutates_builder [OF r]
  from w have e: "fst (execute (limit 5 (snd (executeFence (0::nat) (new_Tile38Query ''NEARBY'' ''fleet'')))))
     = (SendCommand (qtype (limit 5 (snd (executeFence (0::nat) (new_Tile38Query ''NEARBY'' ''fleet'')))))
         1 (fst (commandArr (limit 5 (snd (executeFence (0::nat) (new_Tile38Query ''NEARBY'' ''fleet''))))))
         :: nat request)"
    by blast
  from w have m: "JStr ''FENCE'' \<in> set (fst (commandArr (limit 5 (snd (executeFence (0::nat) (new_Tile38Query ''NEARBY'' ''fleet''))))))"
    by blast
  from e have "fst (execute (limit 5 (snd (executeFence (0::nat) (new_Tile38Query ''NEARBY'' ''fleet'')))))
     = (SendCommand ''NEARBY'' 1 [JStr ''fleet'', JStr ''LIMIT'', JNum 5, JStr ''ASC'', JStr ''FENCE'']
         :: nat request)"
    by (simp only: c t)
  with r m show ?thesis
    by (intro conjI)
qed


end
